theory Spec2Isabelle
  imports Complex_Main
begin

section \<open>lib/tmdb.ts: TMDB responses in the Douban subject shape\<close>

subsection \<open>JavaScript values\<close>

text \<open>
  The module reads the upstream payload as \<open>any\<close>: whatever \<open>res.json()\<close> parsed.
  A number is an IEEE double. The module never computes with numbers; it only tests them
  for truthiness and converts them to strings, so a finite double is kept as the rational
  it denotes (\<open>-0\<close> and \<open>0\<close> are not told apart by either operation). Not every rational
  is a double: the model admits more numbers than the runtime has.

  A string is kept as the bytes of its UTF-8 encoding, which is how the source file
  writes its literals; strict equality of strings is equality of these bytes.

  An object is the list of its own properties; the first binding of a key is the
  property's value.
\<close>

datatype jsnumber = Finite rat | NaN | Infinity | NegInfinity

datatype jsval =
    Undefined
  | Null
  | Bool bool
  | Num jsnumber
  | Str string
  | Arr "jsval list"
  | Obj "(string \<times> jsval) list"

datatype error = TypeError

definition andThen :: "error + 'a \<Rightarrow> ('a \<Rightarrow> error + 'b) \<Rightarrow> error + 'b" where
  "andThen m f = (case m of Inl e \<Rightarrow> Inl e | Inr v \<Rightarrow> f v)"

text \<open>ToBoolean.\<close>

fun truthy :: "jsval \<Rightarrow> bool" where
  "truthy Undefined = False"
| "truthy Null = False"
| "truthy (Bool b) = b"
| "truthy (Num (Finite q)) = (q \<noteq> 0)"
| "truthy (Num NaN) = False"
| "truthy (Num Infinity) = True"
| "truthy (Num NegInfinity) = True"
| "truthy (Str s) = (s \<noteq> [])"
| "truthy (Arr xs) = True"
| "truthy (Obj kvs) = True"

text \<open>
  Property read \<open>v.k\<close>. Reading a property of \<open>undefined\<close> or \<open>null\<close> throws. On a
  primitive or an array the read goes to the prototype; none of the names this module
  reads (\<open>results\<close>, \<open>media_type\<close>, \<open>id\<close>, \<open>title\<close>, \<open>name\<close>, \<open>original_title\<close>,
  \<open>original_name\<close>, \<open>release_date\<close>, \<open>first_air_date\<close>, \<open>poster_path\<close>,
  \<open>vote_average\<close>, \<open>overview\<close>) is a property of a built-in prototype, so the read
  gives \<open>undefined\<close>.
\<close>

fun getProp :: "jsval \<Rightarrow> string \<Rightarrow> error + jsval" where
  "getProp Undefined k = Inl TypeError"
| "getProp Null k = Inl TypeError"
| "getProp (Obj kvs) k = Inr (case map_of kvs k of None \<Rightarrow> Undefined | Some v \<Rightarrow> v)"
| "getProp v k = Inr Undefined"

text \<open>\<open>a || b\<close>: the right operand is evaluated only when the left one is falsy.\<close>

definition orElse :: "error + jsval \<Rightarrow> error + jsval \<Rightarrow> error + jsval" where
  "orElse a b = andThen a (\<lambda>x. if truthy x then Inr x else b)"

subsection \<open>The host: runtime, process environment and network\<close>

text \<open>
  \<open>Number.prototype.toString\<close> belongs to the runtime, \<open>process.env.TMDB_API_KEY\<close> to
  the process and \<open>fetch\<close> to the network; the module's functions take them from the host.
\<close>

record request =
  url :: string
  searchParams :: "(string \<times> string) list"

text \<open>
  What \<open>fetch\<close> followed by \<open>res.json()\<close> can do: reject, or resolve to a response with
  its \<open>ok\<close> flag and a body that parses as JSON (\<open>Some\<close>) or does not (\<open>None\<close>).
\<close>

datatype fetch_outcome = NetworkError | HttpResponse bool "jsval option"

record host =
  numberToString :: "jsnumber \<Rightarrow> string"
  TMDB_API_KEY :: "string option"
  fetch :: "request \<Rightarrow> fetch_outcome"

text \<open>
  ToString, as a template literal and \<open>Array.prototype.join\<close> apply it. A parsed JSON
  value holds no function: an object with an own property \<open>toString\<close> has nothing
  callable to convert it (its \<open>valueOf\<close> is either own and not callable, or the
  inherited one, which returns the object), and the conversion throws. An array is
  joined with commas, \<open>undefined\<close> and \<open>null\<close> elements giving the empty string.
\<close>

fun ToString :: "host \<Rightarrow> jsval \<Rightarrow> error + string"
  and join :: "host \<Rightarrow> jsval list \<Rightarrow> error + string"
  and element :: "host \<Rightarrow> jsval \<Rightarrow> error + string" where
  "ToString h Undefined = Inr ''undefined''"
| "ToString h Null = Inr ''null''"
| "ToString h (Bool b) = Inr (if b then ''true'' else ''false'')"
| "ToString h (Num n) = Inr (numberToString h n)"
| "ToString h (Str s) = Inr s"
| "ToString h (Arr xs) = join h xs"
| "ToString h (Obj kvs) =
     (if ''toString'' \<in> fst ` set kvs then Inl TypeError else Inr ''[object Object]'')"
| "join h [] = Inr []"
| "join h [x] = element h x"
| "join h (x # y # ys) =
     (case element h x of Inl e \<Rightarrow> Inl e
      | Inr s \<Rightarrow> (case join h (y # ys) of Inl e \<Rightarrow> Inl e | Inr r \<Rightarrow> Inr (s @ '','' @ r)))"
| "element h Undefined = Inr []"
| "element h Null = Inr []"
| "element h v = ToString h v"

text \<open>
  The method call \<open>v.toString()\<close>: throws on \<open>undefined\<close> and \<open>null\<close>, and on an object
  whose own \<open>toString\<close> property shadows the inherited method; otherwise it is the
  prototype's method, which converts as ToString does.
\<close>

fun toString :: "host \<Rightarrow> jsval \<Rightarrow> error + string" where
  "toString h Undefined = Inl TypeError"
| "toString h Null = Inl TypeError"
| "toString h v = ToString h v"

text \<open>\<open>s.split(sep)\<close> for a one-character separator.\<close>

fun split :: "char \<Rightarrow> string \<Rightarrow> string list" where
  "split sep [] = [[]]"
| "split sep (c # cs) =
     (if c = sep then [] # split sep cs
      else (case split sep cs of [] \<Rightarrow> [[c]] | w # ws \<Rightarrow> (c # w) # ws))"

text \<open>\<open>xs[0]\<close>: \<open>undefined\<close> when the array is empty.\<close>

definition first :: "string list \<Rightarrow> jsval" where
  "first xs = (case xs of [] \<Rightarrow> Undefined | x # _ \<Rightarrow> Str x)"

text \<open>
  \<open>xs.map(f)\<close> and \<open>xs.filter(p)\<close> on an array, the callback applied from left to right;
  the first exception thrown by the callback ends the call.
\<close>

fun mapE :: "('a \<Rightarrow> error + 'b) \<Rightarrow> 'a list \<Rightarrow> error + 'b list" where
  "mapE f [] = Inr []"
| "mapE f (x # xs) =
     andThen (f x) (\<lambda>y. andThen (mapE f xs) (\<lambda>ys. Inr (y # ys)))"

fun filterE :: "('a \<Rightarrow> error + bool) \<Rightarrow> 'a list \<Rightarrow> error + 'a list" where
  "filterE p [] = Inr []"
| "filterE p (x # xs) =
     andThen (p x) (\<lambda>b. andThen (filterE p xs) (\<lambda>ys. Inr (if b then x # ys else ys)))"

text \<open>
  The method calls \<open>v.map(f)\<close> and \<open>v.filter(p)\<close> on a parsed JSON value: only an array
  has the method; on every other value the property is \<open>undefined\<close> or not callable,
  and the call throws.
\<close>

definition callMap :: "jsval \<Rightarrow> (jsval \<Rightarrow> error + 'b) \<Rightarrow> error + 'b list" where
  "callMap v f = (case v of Arr xs \<Rightarrow> mapE f xs | _ \<Rightarrow> Inl TypeError)"

definition callFilter :: "jsval \<Rightarrow> (jsval \<Rightarrow> error + bool) \<Rightarrow> error + jsval" where
  "callFilter v p =
     (case v of Arr xs \<Rightarrow> andThen (filterE p xs) (\<lambda>ys. Inr (Arr ys)) | _ \<Rightarrow> Inl TypeError)"

subsection \<open>Constants and the subject record\<close>

definition TMDB_BASE_URL :: string where
  "TMDB_BASE_URL = ''https://api.themoviedb.org/3''"

definition IMAGE_BASE_URL :: string where
  "IMAGE_BASE_URL = ''https://image.tmdb.org/t/p/w500''"

definition placeholder :: string where
  "placeholder = ''https://via.placeholder.com/400x600?text=No+Cover''"

text \<open>
  \<open>DoubanSubject\<close>. The interface declares \<open>title\<close>, \<open>original_title\<close>, \<open>year\<close> and
  \<open>summary\<close> as strings and \<open>average\<close> as a number, but the normalizer copies them from the
  untyped item, so at run time they hold whatever value the item had.
\<close>

record images =
  large :: string
  medium :: string
  small :: string

record rating =
  average :: jsval

record person =
  name :: string
  person_id :: "string option"

record DoubanSubject =
  id' :: string
  title :: jsval
  original_title :: jsval
  year :: jsval
  images :: images
  rating :: rating
  genres :: "string list"
  casts :: "person list"
  directors :: "person list"
  summary :: jsval

subsection \<open>normalizeToDouban\<close>

text \<open>\<open>date ? date.split('-')[0] : ''\<close>; only a string has \<open>split\<close>.\<close>

definition yearOf :: "jsval \<Rightarrow> error + jsval" where
  "yearOf date =
     (if truthy date
      then (case date of Str s \<Rightarrow> Inr (first (split CHR ''-'' s)) | _ \<Rightarrow> Inl TypeError)
      else Inr (Str []))"

definition posterOf :: "host \<Rightarrow> jsval \<Rightarrow> error + string" where
  "posterOf h poster_path =
     (if truthy poster_path
      then andThen (ToString h poster_path) (\<lambda>s. Inr (IMAGE_BASE_URL @ s))
      else Inr placeholder)"

definition normalizeToDouban :: "host \<Rightarrow> jsval \<Rightarrow> error + DoubanSubject" where
  "normalizeToDouban h item =
     andThen (getProp item ''first_air_date'') (\<lambda>fad.
     let isTv = truthy fad in
     andThen (orElse (orElse (getProp item ''title'') (getProp item ''name''))
                     (Inr (Str []))) (\<lambda>title.
     andThen (orElse (orElse (getProp item ''original_title'') (getProp item ''original_name''))
                     (Inr (Str []))) (\<lambda>original_title.
     andThen (orElse (orElse (getProp item ''release_date'') (getProp item ''first_air_date''))
                     (Inr (Str []))) (\<lambda>date.
     andThen (yearOf date) (\<lambda>year.
     andThen (andThen (getProp item ''poster_path'') (posterOf h)) (\<lambda>poster.
     andThen (andThen (getProp item ''id'') (toString h)) (\<lambda>ident.
     andThen (orElse (getProp item ''vote_average'') (Inr (Num (Finite 0)))) (\<lambda>avg.
     andThen (orElse (getProp item ''overview'') (Inr (Str []))) (\<lambda>overview.
     Inr \<lparr> id' = ident,
           title = title,
           original_title = original_title,
           year = year,
           images = \<lparr> large = poster, medium = poster, small = poster \<rparr>,
           rating = \<lparr> average = avg \<rparr>,
           genres = [],
           casts = [],
           directors = [],
           summary = overview \<rparr>)))))))))"

subsection \<open>fetchTMDB\<close>

text \<open>
  The function builds the URL, appends \<open>api_key\<close>, \<open>language\<close> and the caller's
  parameters in this order, and issues one request. A rejected \<open>fetch\<close>, a response
  that is not \<open>ok\<close> and a body that \<open>res.json()\<close> cannot parse all end in \<open>null\<close>.
  The result is paired with the request that was issued. The \<open>console.error\<close> lines
  are left out.
\<close>

definition received :: "host \<Rightarrow> request \<Rightarrow> jsval" where
  \<comment> \<open>the \<open>try\<close> block: what the function returns once the request \<open>u\<close> is built\<close>
  "received h u =
     (case fetch h u of
        NetworkError \<Rightarrow> Null
      | HttpResponse ok body \<Rightarrow>
          (if \<not> ok then Null
           else (case body of None \<Rightarrow> Null | Some v \<Rightarrow> v)))"

definition fetchTMDB :: "host \<Rightarrow> string \<Rightarrow> (string \<times> string) list \<Rightarrow> request \<times> jsval" where
  "fetchTMDB h endpoint params =
     (let u = \<lparr> url = TMDB_BASE_URL @ endpoint,
                 searchParams =
                   [(''api_key'', (case TMDB_API_KEY h of None \<Rightarrow> [] | Some k \<Rightarrow> k)),
                    (''language'', ''zh-CN'')] @ params \<rparr>
      in (u, received h u))"

subsection \<open>getMovieList\<close>

text \<open>
  The two localized tags, as the UTF-8 bytes of the source's literals:
  U+70ED U+95E8 and U+6700 U+65B0.
\<close>

definition hot_zh :: string where
  "hot_zh = [CHR 0xE7, CHR 0x83, CHR 0xAD, CHR 0xE9, CHR 0x97, CHR 0xA8]"

definition latest_zh :: string where
  "latest_zh = [CHR 0xE6, CHR 0x9C, CHR 0x80, CHR 0xE6, CHR 0x96, CHR 0xB0]"

text \<open>Lines 84 to 101: the endpoint chosen from \<open>type\<close> and \<open>tag\<close>.\<close>

definition listEndpoint :: "string \<Rightarrow> string \<Rightarrow> string" where
  "listEndpoint type tag =
     (let endpoint = ''/movie/popular'';
          mediaType = ''movie'';
          mediaType = (if type = ''tv'' then ''tv'' else mediaType)
      in if tag = ''hot'' \<or> tag = hot_zh then ''/'' @ mediaType @ ''/popular''
         else if tag = ''latest'' \<or> tag = latest_zh
           then (let endpoint = ''/'' @ mediaType @ ''/now_playing''
                 in if mediaType = ''tv'' then ''/tv/on_the_air'' else endpoint)
         else if tag = ''top250'' \<or> tag = ''high_score'' then ''/'' @ mediaType @ ''/top_rated''
         else ''/'' @ mediaType @ ''/popular'')"

text \<open>
  An omitted argument is \<open>None\<close> and takes the declared default. The result is the
  request issued and what the returned promise settles to: \<open>Inr\<close> the subjects it
  resolves to, \<open>Inl\<close> the exception it rejects with.
\<close>

definition getMovieList ::
  "host \<Rightarrow> string \<Rightarrow> string option \<Rightarrow> jsnumber option \<Rightarrow> jsnumber option
     \<Rightarrow> request \<times> (error + DoubanSubject list)" where
  "getMovieList h type tag page limit =
     (let tag = (case tag of None \<Rightarrow> ''hot'' | Some t \<Rightarrow> t);
          page = (case page of None \<Rightarrow> Finite 1 | Some p \<Rightarrow> p);
          limit = (case limit of None \<Rightarrow> Finite 20 | Some l \<Rightarrow> l);
          endpoint = listEndpoint type tag;
          (req, data) = fetchTMDB h endpoint [(''page'', numberToString h page)]
      in (req,
          if \<not> truthy data then Inr []
          else andThen (getProp data ''results'') (\<lambda>r.
               if \<not> truthy r then Inr []
               else andThen (getProp data ''results'') (\<lambda>results.
                    callMap results (normalizeToDouban h)))))"

subsection \<open>searchMovies\<close>

text \<open>The filter's callback: \<open>i.media_type === 'movie' || i.media_type === 'tv'\<close>.\<close>

definition isMovieOrTv :: "jsval \<Rightarrow> error + bool" where
  "isMovieOrTv i =
     andThen (getProp i ''media_type'') (\<lambda>m.
     if m = Str ''movie'' then Inr True
     else andThen (getProp i ''media_type'') (\<lambda>m'. Inr (m' = Str ''tv'')))"

definition searchMovies ::
  "host \<Rightarrow> string \<Rightarrow> jsnumber option \<Rightarrow> request \<times> (error + DoubanSubject list)" where
  "searchMovies h query page =
     (let page = (case page of None \<Rightarrow> Finite 1 | Some p \<Rightarrow> p);
          (req, data) = fetchTMDB h ''/search/multi''
                          [(''query'', query), (''page'', numberToString h page)]
      in (req,
          if \<not> truthy data then Inr []
          else andThen (getProp data ''results'') (\<lambda>r.
               if \<not> truthy r then Inr []
               else andThen (getProp data ''results'') (\<lambda>results.
                    andThen (callFilter results isMovieOrTv) (\<lambda>filtered.
                    callMap filtered (normalizeToDouban h))))))"

subsection \<open>Vocabulary of the properties\<close>

text \<open>
  The value of a property of an item, \<open>undefined\<close> when the item is not an object or
  has no such property.
\<close>

definition field :: "jsval \<Rightarrow> string \<Rightarrow> jsval" where
  "field v k =
     (case v of
        Obj kvs \<Rightarrow> (case map_of kvs k of None \<Rightarrow> Undefined | Some x \<Rightarrow> x)
      | _ \<Rightarrow> Undefined)"

definition present :: "jsval \<Rightarrow> bool" where
  "present v = (v \<noteq> Undefined \<and> v \<noteq> Null)"

definition isString :: "jsval \<Rightarrow> bool" where
  "isString v = (case v of Str s \<Rightarrow> True | _ \<Rightarrow> False)"

definition isArray :: "jsval \<Rightarrow> bool" where
  "isArray v = (case v of Arr xs \<Rightarrow> True | _ \<Rightarrow> False)"

text \<open>
  A value that has a string form: no object with an own \<open>toString\<close> property, at any
  depth of arrays.
\<close>

fun convertible :: "jsval \<Rightarrow> bool" where
  "convertible (Obj kvs) = (''toString'' \<notin> fst ` set kvs)"
| "convertible (Arr xs) = (\<forall>x \<in> set xs. convertible x)"
| "convertible v = True"

text \<open>The first truthy one of two properties, else the default.\<close>

definition firstTruthy :: "jsval \<Rightarrow> string \<Rightarrow> string \<Rightarrow> jsval \<Rightarrow> jsval" where
  "firstTruthy item k1 k2 d =
     (if truthy (field item k1) then field item k1
      else if truthy (field item k2) then field item k2
      else d)"

text \<open>
  An item the normalizer accepts: its \<open>id\<close> is there and has a string form, its date
  (the release date, else the first air date) is a string or missing, and its poster
  path, when truthy, has a string form.
\<close>

definition normalizable :: "jsval \<Rightarrow> bool" where
  "normalizable item =
     (present (field item ''id'') \<and> convertible (field item ''id'')
      \<and> isString (firstTruthy item ''release_date'' ''first_air_date'' (Str []))
      \<and> (truthy (field item ''poster_path'') \<longrightarrow> convertible (field item ''poster_path'')))"

text \<open>A search result of one of the two kinds that are kept.\<close>

definition kept :: "jsval \<Rightarrow> bool" where
  "kept i = (field i ''media_type'' = Str ''movie'' \<or> field i ''media_type'' = Str ''tv'')"

text \<open>
  The responses on which each operation resolves: a falsy response, a falsy
  \<open>results\<close>, or an array of items that all pass through the callbacks.
\<close>

definition listable :: "jsval \<Rightarrow> bool" where
  "listable data =
     (\<not> truthy data \<or> \<not> truthy (field data ''results'')
      \<or> (case field data ''results'' of
            Arr xs \<Rightarrow> (\<forall>x \<in> set xs. normalizable x)
          | _ \<Rightarrow> False))"

definition searchable :: "jsval \<Rightarrow> bool" where
  "searchable data =
     (\<not> truthy data \<or> \<not> truthy (field data ''results'')
      \<or> (case field data ''results'' of
            Arr xs \<Rightarrow> (\<forall>x \<in> set xs. present x) \<and> (\<forall>x \<in> set (filter kept xs). normalizable x)
          | _ \<Rightarrow> False))"

subsection \<open>A host to run the definitions on\<close>

text \<open>
  Its \<open>Number.prototype.toString\<close> prints the integer part in decimal, which is what the
  runtime prints for an integer below \<open>10^21\<close>; every request gets the same outcome.
\<close>

fun decimal :: "nat \<Rightarrow> string" where
  "decimal n =
     (if n < 10 then [''0123456789'' ! n]
      else decimal (n div 10) @ [''0123456789'' ! (n mod 10)])"

declare decimal.simps [simp del]

definition integerToString :: "jsnumber \<Rightarrow> string" where
  "integerToString n =
     (case n of
        NaN \<Rightarrow> ''NaN''
      | Infinity \<Rightarrow> ''Infinity''
      | NegInfinity \<Rightarrow> ''-Infinity''
      | Finite q \<Rightarrow>
          (if q < 0 then ''-'' @ decimal (nat \<lfloor>- q\<rfloor>) else decimal (nat \<lfloor>q\<rfloor>)))"

definition answering :: "fetch_outcome \<Rightarrow> host" where
  "answering outcome =
     \<lparr> numberToString = integerToString, TMDB_API_KEY = Some ''k'', fetch = (\<lambda>_. outcome) \<rparr>"

definition ok :: "jsval \<Rightarrow> fetch_outcome" where
  "ok body = HttpResponse True (Some body)"

section \<open>Properties\<close>

subsection \<open>Basic facts about the embedding\<close>

lemma error_is_TypeError: "(e::error) = TypeError"
  by (cases e) simp

lemma not_Inr_iff: "(\<forall>y. m \<noteq> Inr y) = (m = Inl TypeError)"
  by (cases m) (auto simp: error_is_TypeError)

lemma andThen_simps:
  "andThen (Inl e) f = Inl e"
  "andThen (Inr v) f = f v"
  by (simp_all add: andThen_def)

lemma andThen_Inr_iff:
  "(andThen m f = Inr y) = (\<exists>v. m = Inr v \<and> f v = Inr y)"
  by (cases m) (simp_all add: andThen_def)

lemma getProp_present: "present v \<Longrightarrow> getProp v k = Inr (field v k)"
  by (cases v) (simp_all add: present_def field_def)

lemma getProp_absent: "\<not> present v \<Longrightarrow> getProp v k = Inl TypeError"
  by (cases v) (simp_all add: present_def)

lemma truthy_present: "truthy v \<Longrightarrow> present v"
  by (cases v) (simp_all add: present_def)

lemma ToString_fails_iff:
  "(ToString h v = Inl TypeError) = (\<not> convertible v)"
  "(join h xs = Inl TypeError) = (\<not> (\<forall>x \<in> set xs. convertible x))"
  "(element h v = Inl TypeError) = (\<not> convertible v)"
  by (induction h v and h xs and h v rule: ToString_join_element.induct)
     (auto simp: error_is_TypeError split: sum.splits)

lemma toString_fails_iff:
  "(toString h v = Inl TypeError) = (\<not> (present v \<and> convertible v))"
  by (cases v) (simp_all add: present_def ToString_fails_iff del: ToString.simps)

lemma split_takeWhile: "\<exists>ws. split c s = takeWhile (\<lambda>x. x \<noteq> c) s # ws"
  by (induction s) auto

lemma first_split: "first (split c s) = Str (takeWhile (\<lambda>x. x \<noteq> c) s)"
  using split_takeWhile [of c s] by (auto simp: first_def)

lemma yearOf_Str: "yearOf (Str d) = Inr (Str (takeWhile (\<lambda>x. x \<noteq> CHR ''-'') d))"
  by (simp add: yearOf_def first_split)

lemma yearOf_fails_iff:
  "(yearOf d = Inl TypeError) = (truthy d \<and> \<not> isString d)"
  by (cases d) (simp_all add: yearOf_def isString_def)

lemma posterOf_fails_iff:
  "(posterOf h p = Inl TypeError) = (truthy p \<and> \<not> convertible p)"
  using ToString_fails_iff(1) [of h p]
  by (cases "ToString h p") (auto simp: posterOf_def andThen_def error_is_TypeError)

lemma orElse_Inr: "orElse (Inr a) b = (if truthy a then Inr a else b)"
  by (simp add: orElse_def andThen_def)

lemma normalizeToDouban_absent:
  "\<not> present item \<Longrightarrow> normalizeToDouban h item = Inl TypeError"
  by (simp add: normalizeToDouban_def getProp_absent andThen_def)

lemma normalizeToDouban_present:
  "present item \<Longrightarrow>
   normalizeToDouban h item =
     andThen (yearOf (firstTruthy item ''release_date'' ''first_air_date'' (Str []))) (\<lambda>year.
     andThen (posterOf h (field item ''poster_path'')) (\<lambda>poster.
     andThen (toString h (field item ''id'')) (\<lambda>ident.
     Inr \<lparr> id' = ident,
           title = firstTruthy item ''title'' ''name'' (Str []),
           original_title = firstTruthy item ''original_title'' ''original_name'' (Str []),
           year = year,
           images = \<lparr> large = poster, medium = poster, small = poster \<rparr>,
           rating = \<lparr> average = (if truthy (field item ''vote_average'')
                                  then field item ''vote_average'' else Num (Finite 0)) \<rparr>,
           genres = [],
           casts = [],
           directors = [],
           summary = (if truthy (field item ''overview'')
                      then field item ''overview'' else Str []) \<rparr>)))"
  by (simp add: normalizeToDouban_def getProp_present orElse_Inr andThen_simps
        firstTruthy_def Let_def)

lemma firstTruthy_isString_iff:
  "isString (firstTruthy item k1 k2 (Str [])) =
   (\<not> (truthy (firstTruthy item k1 k2 (Str [])) \<and> \<not> isString (firstTruthy item k1 k2 (Str []))))"
  by (auto simp: firstTruthy_def isString_def)

lemma field_absent: "\<not> present item \<Longrightarrow> field item k = Undefined"
  by (cases item) (simp_all add: present_def field_def)

lemma andThen3_fails_iff:
  "(andThen a (\<lambda>x. andThen b (\<lambda>y. andThen c (\<lambda>z. Inr (g x y z)))) = Inl TypeError)
   = (a = Inl TypeError \<or> b = Inl TypeError \<or> c = Inl TypeError)"
  by (cases a; cases b; cases c) (simp_all add: andThen_def error_is_TypeError)

lemma normalizeToDouban_fails_iff:
  "(normalizeToDouban h item = Inl TypeError) = (\<not> normalizable item)"
proof (cases "present item")
  case False
  then show ?thesis
    by (simp add: normalizeToDouban_absent normalizable_def field_absent present_def)
next
  case True
  have y: "(yearOf (firstTruthy item ''release_date'' ''first_air_date'' (Str [])) = Inl TypeError)
           = (\<not> isString (firstTruthy item ''release_date'' ''first_air_date'' (Str [])))"
    using firstTruthy_isString_iff [of item "''release_date''" "''first_air_date''"]
    by (simp only: yearOf_fails_iff) blast
  show ?thesis
    unfolding normalizeToDouban_present [OF True] andThen3_fails_iff y
      posterOf_fails_iff toString_fails_iff normalizable_def
    by blast
qed

lemma normalizeToDouban_succeeds_iff:
  "(\<exists>r. normalizeToDouban h item = Inr r) = normalizable item"
  using normalizeToDouban_fails_iff [of h item] not_Inr_iff [of "normalizeToDouban h item"]
  by blast



subsection \<open>Evaluation on concrete inputs\<close>

lemmas run_simps =
  normalizeToDouban_def andThen_def orElse_def yearOf_def posterOf_def first_def
  answering_def ok_def integerToString_def decimal.simps
  getMovieList_def searchMovies_def fetchTMDB_def received_def listEndpoint_def
  hot_zh_def latest_zh_def callMap_def callFilter_def isMovieOrTv_def
  TMDB_BASE_URL_def IMAGE_BASE_URL_def placeholder_def Let_def

lemmas prop_simps =
  field_def present_def isString_def isArray_def firstTruthy_def normalizable_def kept_def
  listable_def searchable_def

subsection \<open>The normalizer\<close>

text \<open>
  C1, as stated, fails: the normalizer is not total. It reads \<open>item.id.toString()\<close> with
  no default, so an item without an \<open>id\<close> makes it throw; here an item that has only a
  title.
\<close>

theorem normalizeToDouban_not_total:
  "normalizeToDouban (answering NetworkError) (Obj [(''title'', Str ''Dune'')]) = Inl TypeError"
  by (simp add: run_simps)

text \<open>
  C1, amended: the normalizer produces a record exactly for the items that are
  \<^const>\<open>normalizable\<close> and throws a TypeError for every other item. When it produces a
  record, a missing (or otherwise falsy) title, original title, date, poster path, rating
  or overview gives the empty string, the empty year, the placeholder image, zero and the
  empty summary. An item that holds only an \<open>id\<close> which is neither \<open>null\<close> nor
  \<open>undefined\<close> and has a string form gives the record with that string as identifier,
  the placeholder image, zero rating and empty year, title and summary.
\<close>

theorem normalizeToDouban_defined_iff_normalizable:
  "((\<exists>r. normalizeToDouban h item = Inr r) = normalizable item)
   \<and> ((normalizeToDouban h item = Inl TypeError) = (\<not> normalizable item))
   \<and> (normalizeToDouban h item = Inr r \<longrightarrow>
        (\<not> truthy (field item ''title'') \<and> \<not> truthy (field item ''name'')
           \<longrightarrow> title r = Str [])
      \<and> (\<not> truthy (field item ''original_title'') \<and> \<not> truthy (field item ''original_name'')
           \<longrightarrow> original_title r = Str [])
      \<and> (\<not> truthy (field item ''release_date'') \<and> \<not> truthy (field item ''first_air_date'')
           \<longrightarrow> year r = Str [])
      \<and> (\<not> truthy (field item ''poster_path'')
           \<longrightarrow> images r = \<lparr> large = placeholder, medium = placeholder, small = placeholder \<rparr>)
      \<and> (\<not> truthy (field item ''vote_average'')
           \<longrightarrow> rating r = \<lparr> average = Num (Finite 0) \<rparr>)
      \<and> (\<not> truthy (field item ''overview'') \<longrightarrow> summary r = Str []))
   \<and> (present v \<and> convertible v \<longrightarrow>
        (\<exists>s. toString h v = Inr s
           \<and> normalizeToDouban h (Obj [(''id'', v)]) =
               Inr \<lparr> id' = s, title = Str [], original_title = Str [], year = Str [],
                     images = \<lparr> large = placeholder, medium = placeholder,
                                small = placeholder \<rparr>,
                     rating = \<lparr> average = Num (Finite 0) \<rparr>,
                     genres = [], casts = [], directors = [], summary = Str [] \<rparr>))"
proof (intro conjI impI)
  show "(\<exists>r. normalizeToDouban h item = Inr r) = normalizable item"
    by (rule normalizeToDouban_succeeds_iff)
  show "(normalizeToDouban h item = Inl TypeError) = (\<not> normalizable item)"
    by (rule normalizeToDouban_fails_iff)
next
  assume v: "present v \<and> convertible v"
  then obtain s where s: "toString h v = Inr s"
    using toString_fails_iff [of h v] not_Inr_iff [of "toString h v"] by blast
  have "normalizeToDouban h (Obj [(''id'', v)]) =
          Inr \<lparr> id' = s, title = Str [], original_title = Str [], year = Str [],
                images = \<lparr> large = placeholder, medium = placeholder, small = placeholder \<rparr>,
                rating = \<lparr> average = Num (Finite 0) \<rparr>,
                genres = [], casts = [], directors = [], summary = Str [] \<rparr>"
    using s by (simp add: normalizeToDouban_def orElse_def andThen_def yearOf_def posterOf_def)
  with s show "\<exists>s. toString h v = Inr s
           \<and> normalizeToDouban h (Obj [(''id'', v)]) =
               Inr \<lparr> id' = s, title = Str [], original_title = Str [], year = Str [],
                     images = \<lparr> large = placeholder, medium = placeholder,
                                small = placeholder \<rparr>,
                     rating = \<lparr> average = Num (Finite 0) \<rparr>,
                     genres = [], casts = [], directors = [], summary = Str [] \<rparr>"
    by blast
next
  assume r: "normalizeToDouban h item = Inr r"
  then have p: "present item"
    using normalizeToDouban_absent [of item h] by auto
  note e = r [unfolded normalizeToDouban_present [OF p] andThen_Inr_iff]
  {
    assume "\<not> truthy (field item ''title'') \<and> \<not> truthy (field item ''name'')"
    then show "title r = Str []" using e by (auto simp: firstTruthy_def)
  next
    assume "\<not> truthy (field item ''original_title'') \<and> \<not> truthy (field item ''original_name'')"
    then show "original_title r = Str []" using e by (auto simp: firstTruthy_def)
  next
    assume "\<not> truthy (field item ''release_date'') \<and> \<not> truthy (field item ''first_air_date'')"
    then show "year r = Str []" using e by (auto simp: firstTruthy_def yearOf_def)
  next
    assume "\<not> truthy (field item ''poster_path'')"
    then show "images r = \<lparr> large = placeholder, medium = placeholder, small = placeholder \<rparr>"
      using e by (auto simp: posterOf_def)
  next
    assume "\<not> truthy (field item ''vote_average'')"
    then show "rating r = \<lparr> average = Num (Finite 0) \<rparr>" using e by auto
  next
    assume "\<not> truthy (field item ''overview'')"
    then show "summary r = Str []" using e by auto
  }
qed

text \<open>The item \<open>{id: 603}\<close>.\<close>

theorem normalizeToDouban_defined_iff_normalizable_witness:
  "normalizable (Obj [(''id'', Num (Finite 603))])
   \<and> present (Num (Finite 603)) \<and> convertible (Num (Finite 603))
   \<and> \<not> truthy (field (Obj [(''id'', Num (Finite 603))]) ''title'')
   \<and> normalizeToDouban (answering NetworkError) (Obj [(''id'', Num (Finite 603))]) =
       Inr \<lparr> id' = ''603'', title = Str [], original_title = Str [], year = Str [],
             images = \<lparr> large = placeholder, medium = placeholder, small = placeholder \<rparr>,
             rating = \<lparr> average = Num (Finite 0) \<rparr>,
             genres = [], casts = [], directors = [], summary = Str [] \<rparr>"
  using normalizeToDouban_defined_iff_normalizable
    [of "answering NetworkError" "Obj [(''id'', Num (Finite 603))]"
        "\<lparr> id' = ''603'', title = Str [], original_title = Str [], year = Str [],
             images = \<lparr> large = placeholder, medium = placeholder, small = placeholder \<rparr>,
             rating = \<lparr> average = Num (Finite 0) \<rparr>,
             genres = [], casts = [], directors = [], summary = Str [] \<rparr>"
        "Num (Finite 603)"]
  by (simp add: prop_simps answering_def integerToString_def decimal.simps)

lemma normalizeToDouban_Inr_present:
  assumes "normalizeToDouban h item = Inr r"
  shows "\<exists>y p s. yearOf (firstTruthy item ''release_date'' ''first_air_date'' (Str [])) = Inr y
           \<and> posterOf h (field item ''poster_path'') = Inr p
           \<and> toString h (field item ''id'') = Inr s
           \<and> r = \<lparr> id' = s,
                    title = firstTruthy item ''title'' ''name'' (Str []),
                    original_title = firstTruthy item ''original_title'' ''original_name'' (Str []),
                    year = y,
                    images = \<lparr> large = p, medium = p, small = p \<rparr>,
                    rating = \<lparr> average = (if truthy (field item ''vote_average'')
                                           then field item ''vote_average'' else Num (Finite 0)) \<rparr>,
                    genres = [], casts = [], directors = [],
                    summary = (if truthy (field item ''overview'')
                               then field item ''overview'' else Str []) \<rparr>"
proof -
  have p: "present item"
    using assms normalizeToDouban_absent [of item h] by auto
  show ?thesis
    using assms [unfolded normalizeToDouban_present [OF p] andThen_Inr_iff] by auto
qed

text \<open>
  C6: the year is the date string cut at its first \<open>-\<close>. Whenever the normalizer
  produces a record and the date it read (the release date, else the first air date,
  else the empty string) is the string \<open>d\<close>, the year is \<open>d\<close> up to its first \<open>-\<close>;
  the date \<open>2023-05-01\<close> gives the year \<open>2023\<close>, the empty date the empty year.
\<close>

theorem year_is_date_up_to_first_dash:
  "(normalizeToDouban h item = Inr r
      \<and> firstTruthy item ''release_date'' ''first_air_date'' (Str []) = Str d
    \<longrightarrow> year r = Str (takeWhile (\<lambda>c. c \<noteq> CHR ''-'') d))
   \<and> yearOf (Str ''2023-05-01'') = Inr (Str ''2023'')
   \<and> yearOf (Str []) = Inr (Str [])"
  using normalizeToDouban_Inr_present [of h item r]
  by (auto simp: yearOf_Str)

text \<open>The item \<open>{id: 603, release_date: "2023-05-01"}\<close>.\<close>

theorem year_is_date_up_to_first_dash_witness:
  "normalizeToDouban (answering NetworkError)
     (Obj [(''id'', Num (Finite 603)), (''release_date'', Str ''2023-05-01'')]) =
     Inr \<lparr> id' = ''603'', title = Str [], original_title = Str [], year = Str ''2023'',
           images = \<lparr> large = placeholder, medium = placeholder, small = placeholder \<rparr>,
           rating = \<lparr> average = Num (Finite 0) \<rparr>,
           genres = [], casts = [], directors = [], summary = Str [] \<rparr>
   \<and> firstTruthy (Obj [(''id'', Num (Finite 603)), (''release_date'', Str ''2023-05-01'')])
         ''release_date'' ''first_air_date'' (Str []) = Str ''2023-05-01''
   \<and> takeWhile (\<lambda>c. c \<noteq> CHR ''-'') ''2023-05-01'' = ''2023''"
  using year_is_date_up_to_first_dash
    [of "answering NetworkError"
        "Obj [(''id'', Num (Finite 603)), (''release_date'', Str ''2023-05-01'')]"
        "\<lparr> id' = ''603'', title = Str [], original_title = Str [], year = Str ''2023'',
           images = \<lparr> large = placeholder, medium = placeholder, small = placeholder \<rparr>,
           rating = \<lparr> average = Num (Finite 0) \<rparr>,
           genres = [], casts = [], directors = [], summary = Str [] \<rparr>"
        "''2023-05-01''"]
  by (simp add: run_simps prop_simps)

text \<open>
  C7: title, original title and date are read movie key first, series key second.
  The title is \<open>title\<close> when that is truthy, else \<open>name\<close> when that is truthy, else the
  empty string; the original title is \<open>original_title\<close>, else \<open>original_name\<close>; the year
  is taken from \<open>release_date\<close>, else from \<open>first_air_date\<close>.
\<close>

theorem movie_key_first_then_series_key:
  "normalizeToDouban h item = Inr r \<longrightarrow>
     title r = (if truthy (field item ''title'') then field item ''title''
                else if truthy (field item ''name'') then field item ''name''
                else Str [])
   \<and> original_title r =
       (if truthy (field item ''original_title'') then field item ''original_title''
        else if truthy (field item ''original_name'') then field item ''original_name''
        else Str [])
   \<and> yearOf (if truthy (field item ''release_date'') then field item ''release_date''
              else if truthy (field item ''first_air_date'') then field item ''first_air_date''
              else Str []) = Inr (year r)"
  using normalizeToDouban_Inr_present [of h item r]
  by (auto simp: firstTruthy_def)

text \<open>An item that has both the movie and the series keys, and no \<open>original_title\<close>.\<close>

theorem movie_key_first_then_series_key_witness:
  "normalizeToDouban (answering NetworkError)
     (Obj [(''id'', Num (Finite 7)),
           (''title'', Str ''Dune''), (''name'', Str ''Dune: Prophecy''),
           (''original_name'', Str ''Sisterhood''),
           (''release_date'', Str ''2021-09-15''), (''first_air_date'', Str ''2024-11-17'')]) =
     Inr \<lparr> id' = ''7'', title = Str ''Dune'', original_title = Str ''Sisterhood'',
           year = Str ''2021'',
           images = \<lparr> large = placeholder, medium = placeholder, small = placeholder \<rparr>,
           rating = \<lparr> average = Num (Finite 0) \<rparr>,
           genres = [], casts = [], directors = [], summary = Str [] \<rparr>"
  using movie_key_first_then_series_key
    [of "answering NetworkError"
        "Obj [(''id'', Num (Finite 7)),
           (''title'', Str ''Dune''), (''name'', Str ''Dune: Prophecy''),
           (''original_name'', Str ''Sisterhood''),
           (''release_date'', Str ''2021-09-15''), (''first_air_date'', Str ''2024-11-17'')]"
        "\<lparr> id' = ''7'', title = Str ''Dune'', original_title = Str ''Sisterhood'',
           year = Str ''2021'',
           images = \<lparr> large = placeholder, medium = placeholder, small = placeholder \<rparr>,
           rating = \<lparr> average = Num (Finite 0) \<rparr>,
           genres = [], casts = [], directors = [], summary = Str [] \<rparr>"]
  by (simp add: run_simps prop_simps)

text \<open>
  C8: in every record the normalizer produces, the large, medium and small image URLs
  are equal, and are the image base URL followed by the poster path when the item has a
  truthy one and the placeholder otherwise; genres, casts and directors are empty; the
  rating block is the single average, the item's \<open>vote_average\<close> or zero.
\<close>

theorem subject_shape:
  "normalizeToDouban h item = Inr r \<longrightarrow>
     large (images r) = medium (images r) \<and> medium (images r) = small (images r)
   \<and> (if truthy (field item ''poster_path'')
       then \<exists>s. ToString h (field item ''poster_path'') = Inr s
                \<and> large (images r) = IMAGE_BASE_URL @ s
       else large (images r) = placeholder)
   \<and> genres r = [] \<and> casts r = [] \<and> directors r = []
   \<and> rating r = \<lparr> average = (if truthy (field item ''vote_average'')
                               then field item ''vote_average'' else Num (Finite 0)) \<rparr>"
  using normalizeToDouban_Inr_present [of h item r]
  by (auto simp: posterOf_def andThen_Inr_iff)

text \<open>An item with a poster path and a rating.\<close>

theorem subject_shape_witness:
  "normalizeToDouban (answering NetworkError)
     (Obj [(''id'', Num (Finite 7)), (''poster_path'', Str ''/d.jpg''),
           (''vote_average'', Num (Finite (39 / 5)))]) =
     Inr \<lparr> id' = ''7'', title = Str [], original_title = Str [], year = Str [],
           images = \<lparr> large = ''https://image.tmdb.org/t/p/w500/d.jpg'',
                      medium = ''https://image.tmdb.org/t/p/w500/d.jpg'',
                      small = ''https://image.tmdb.org/t/p/w500/d.jpg'' \<rparr>,
           rating = \<lparr> average = Num (Finite (39 / 5)) \<rparr>,
           genres = [], casts = [], directors = [], summary = Str [] \<rparr>"
  using subject_shape
    [of "answering NetworkError"
        "Obj [(''id'', Num (Finite 7)), (''poster_path'', Str ''/d.jpg''),
           (''vote_average'', Num (Finite (39 / 5)))]"
        "\<lparr> id' = ''7'', title = Str [], original_title = Str [], year = Str [],
           images = \<lparr> large = ''https://image.tmdb.org/t/p/w500/d.jpg'',
                      medium = ''https://image.tmdb.org/t/p/w500/d.jpg'',
                      small = ''https://image.tmdb.org/t/p/w500/d.jpg'' \<rparr>,
           rating = \<lparr> average = Num (Finite (39 / 5)) \<rparr>,
           genres = [], casts = [], directors = [], summary = Str [] \<rparr>"]
  by (simp add: run_simps prop_simps)

subsection \<open>Facts about the two operations\<close>

lemma mapE_fails_iff: "(mapE f xs = Inl TypeError) = (\<exists>x \<in> set xs. f x = Inl TypeError)"
  by (induction xs) (auto simp: andThen_def error_is_TypeError split: sum.splits)

lemma mapE_Inr_iff: "(mapE f xs = Inr ys) = (map f xs = map Inr ys)"
proof (induction xs arbitrary: ys)
  case Nil
  show ?case by auto
next
  case (Cons x xs)
  show ?case
  proof (cases ys)
    assume "ys = []"
    then show ?thesis by (auto simp: andThen_def split: sum.splits)
  next
    fix z zs
    assume "ys = z # zs"
    then show ?thesis
      using Cons.IH [of zs] by (auto simp: andThen_def split: sum.splits)
  qed
qed

lemma isMovieOrTv_present: "present i \<Longrightarrow> isMovieOrTv i = Inr (kept i)"
  by (simp add: isMovieOrTv_def getProp_present andThen_def kept_def)

lemma isMovieOrTv_absent: "\<not> present i \<Longrightarrow> isMovieOrTv i = Inl TypeError"
  by (simp add: isMovieOrTv_def getProp_absent andThen_def)

lemma filterE_isMovieOrTv:
  "filterE isMovieOrTv xs =
     (if \<forall>x \<in> set xs. present x then Inr (filter kept xs) else Inl TypeError)"
proof (induction xs)
  case Nil
  show ?case by simp
next
  case (Cons x xs)
  show ?case
  proof (cases "present x")
    case True
    then show ?thesis using Cons by (simp add: isMovieOrTv_present andThen_def)
  next
    case False
    then show ?thesis by (simp add: isMovieOrTv_absent andThen_def)
  qed
qed

text \<open>The guard and the two calls, once the response is in hand.\<close>

lemma getMovieList_snd:
  "snd (getMovieList h ty tag page limit) =
     (let data = received h (fst (getMovieList h ty tag page limit))
      in if \<not> truthy data \<or> \<not> truthy (field data ''results'') then Inr []
         else callMap (field data ''results'') (normalizeToDouban h))"
  by (simp add: getMovieList_def fetchTMDB_def Let_def getProp_present truthy_present
        andThen_def)

lemma searchMovies_snd:
  "snd (searchMovies h query page) =
     (let data = received h (fst (searchMovies h query page))
      in if \<not> truthy data \<or> \<not> truthy (field data ''results'') then Inr []
         else andThen (callFilter (field data ''results'') isMovieOrTv) (\<lambda>filtered.
              callMap filtered (normalizeToDouban h)))"
  by (simp add: searchMovies_def fetchTMDB_def Let_def getProp_present truthy_present
        andThen_def)

lemma callMap_not_array: "\<not> isArray v \<Longrightarrow> callMap v f = Inl TypeError"
  by (cases v) (simp_all add: callMap_def isArray_def)

lemma callFilter_not_array: "\<not> isArray v \<Longrightarrow> callFilter v p = Inl TypeError"
  by (cases v) (simp_all add: callFilter_def isArray_def)

lemma search_array:
  "andThen (callFilter (Arr xs) isMovieOrTv) (\<lambda>filtered. callMap filtered (normalizeToDouban h)) =
     (if \<forall>x \<in> set xs. present x then mapE (normalizeToDouban h) (filter kept xs)
      else Inl TypeError)"
  by (simp add: callFilter_def callMap_def filterE_isMovieOrTv andThen_def)

lemma list_fails_iff:
  "((if \<not> truthy data \<or> \<not> truthy (field data ''results'') then Inr []
     else callMap (field data ''results'') (normalizeToDouban h)) = Inl TypeError)
   = (\<not> listable data)"
proof (cases "field data ''results''")
  case (Arr xs)
  then show ?thesis
    by (simp add: listable_def callMap_def mapE_fails_iff normalizeToDouban_fails_iff)
qed (simp_all add: listable_def callMap_def)

lemma search_fails_iff:
  "((if \<not> truthy data \<or> \<not> truthy (field data ''results'') then Inr []
     else andThen (callFilter (field data ''results'') isMovieOrTv) (\<lambda>filtered.
          callMap filtered (normalizeToDouban h))) = Inl TypeError)
   = (\<not> searchable data)"
proof (cases "field data ''results''")
  case (Arr xs)
  then show ?thesis
    by (simp add: searchable_def search_array mapE_fails_iff normalizeToDouban_fails_iff)
qed (simp_all add: searchable_def callFilter_def andThen_def)

subsection \<open>The two exported operations\<close>

text \<open>
  C3, as stated, fails: a response whose \<open>results\<close> array holds \<open>null\<close> makes both
  operations reject. Neither operation catches what the callbacks throw.
\<close>

theorem operations_can_reject:
  "received (answering (ok (Obj [(''results'', Arr [Null])])))
     (fst (getMovieList (answering (ok (Obj [(''results'', Arr [Null])]))) ''movie'' None None None))
     = Obj [(''results'', Arr [Null])]
   \<and> snd (getMovieList (answering (ok (Obj [(''results'', Arr [Null])]))) ''movie'' None None None)
     = Inl TypeError
   \<and> snd (searchMovies (answering (ok (Obj [(''results'', Arr [Null])]))) ''dune'' None)
     = Inl TypeError"
  by (simp add: run_simps)

text \<open>
  C3, amended: each operation either resolves to a sequence of normalized records or
  rejects with a TypeError. \<open>getMovieList\<close> resolves exactly on the responses that are
  \<^const>\<open>listable\<close>: a falsy response, a falsy \<open>results\<close>, or a \<open>results\<close> array whose
  items are all \<^const>\<open>normalizable\<close>. \<open>searchMovies\<close> resolves exactly on the responses
  that are \<^const>\<open>searchable\<close>: the same, with an array that holds no \<open>null\<close> and whose
  movie and tv items are \<^const>\<open>normalizable\<close>.
\<close>

theorem operations_resolve_iff:
  "((\<exists>rs. snd (getMovieList h ty tag page limit) = Inr rs)
      = listable (received h (fst (getMovieList h ty tag page limit))))
   \<and> ((snd (getMovieList h ty tag page limit) = Inl TypeError)
      = (\<not> listable (received h (fst (getMovieList h ty tag page limit)))))
   \<and> ((\<exists>rs. snd (searchMovies h query page') = Inr rs)
      = searchable (received h (fst (searchMovies h query page'))))
   \<and> ((snd (searchMovies h query page') = Inl TypeError)
      = (\<not> searchable (received h (fst (searchMovies h query page')))))"
proof -
  have l: "(snd (getMovieList h ty tag page limit) = Inl TypeError)
      = (\<not> listable (received h (fst (getMovieList h ty tag page limit))))"
    by (simp only: getMovieList_snd [of h ty tag page limit] Let_def list_fails_iff)
  have s: "(snd (searchMovies h query page') = Inl TypeError)
      = (\<not> searchable (received h (fst (searchMovies h query page'))))"
    by (simp only: searchMovies_snd [of h query page'] Let_def search_fails_iff)
  show ?thesis
    using l s not_Inr_iff [of "snd (getMovieList h ty tag page limit)"]
      not_Inr_iff [of "snd (searchMovies h query page')"]
    by blast
qed


text \<open>A response with a person and a series.\<close>

theorem operations_resolve_iff_witness:
  "listable (Obj [(''results'', Arr [Obj [(''id'', Num (Finite 1)), (''media_type'', Str ''person'')],
                                      Obj [(''id'', Num (Finite 2)), (''media_type'', Str ''tv'')]])])
   \<and> searchable (Obj [(''results'', Arr [Obj [(''id'', Num (Finite 1)), (''media_type'', Str ''person'')],
                                      Obj [(''id'', Num (Finite 2)), (''media_type'', Str ''tv'')]])])
   \<and> (\<exists>rs. snd (getMovieList
        (answering (ok (Obj [(''results'',
           Arr [Obj [(''id'', Num (Finite 1)), (''media_type'', Str ''person'')],
                Obj [(''id'', Num (Finite 2)), (''media_type'', Str ''tv'')]])])))
        ''movie'' None None None) = Inr rs)
   \<and> (\<exists>rs. snd (searchMovies
        (answering (ok (Obj [(''results'',
           Arr [Obj [(''id'', Num (Finite 1)), (''media_type'', Str ''person'')],
                Obj [(''id'', Num (Finite 2)), (''media_type'', Str ''tv'')]])])))
        ''dune'' None) = Inr rs)"
  using operations_resolve_iff
    [of "answering (ok (Obj [(''results'',
           Arr [Obj [(''id'', Num (Finite 1)), (''media_type'', Str ''person'')],
                Obj [(''id'', Num (Finite 2)), (''media_type'', Str ''tv'')]])]))"
        "''movie''" None None None "''dune''" None]
  by (simp add: run_simps prop_simps)

text \<open>
  C4, as stated, fails: the filter's callback reads \<open>i.media_type\<close> of every item, so a
  \<open>null\<close> item makes the call reject before anything is kept. Here the movie that comes
  first in \<open>results\<close> is of a kept kind, and no record is returned for it.
\<close>

theorem searchMovies_null_item_rejects:
  "field (received
      (answering (ok (Obj [(''results'',
         Arr [Obj [(''id'', Num (Finite 2)), (''media_type'', Str ''movie'')], Null])])))
      (fst (searchMovies
        (answering (ok (Obj [(''results'',
           Arr [Obj [(''id'', Num (Finite 2)), (''media_type'', Str ''movie'')], Null])])))
        ''dune'' None))) ''results''
     = Arr [Obj [(''id'', Num (Finite 2)), (''media_type'', Str ''movie'')], Null]
   \<and> kept (Obj [(''id'', Num (Finite 2)), (''media_type'', Str ''movie'')])
   \<and> normalizable (Obj [(''id'', Num (Finite 2)), (''media_type'', Str ''movie'')])
   \<and> snd (searchMovies
        (answering (ok (Obj [(''results'',
           Arr [Obj [(''id'', Num (Finite 2)), (''media_type'', Str ''movie'')], Null])])))
        ''dune'' None) = Inl TypeError"
  by (simp add: run_simps prop_simps)

text \<open>
  C4, amended: on a response whose \<open>results\<close> is an array that holds no \<open>null\<close> (or
  \<open>undefined\<close>) item, \<open>searchMovies\<close> keeps exactly the items whose \<open>media_type\<close> is
  \<open>movie\<close> or \<open>tv\<close>, in their order, and discards every item of any other kind before
  normalization: its result is the normalizer mapped over the kept items. When the
  array holds a \<open>null\<close> item the call rejects with a TypeError. Every record that is
  returned is the normalizer's record of a kept item.
\<close>

theorem searchMovies_keeps_movie_and_tv:
  "field (received h (fst (searchMovies h query page))) ''results'' = Arr xs \<longrightarrow>
     snd (searchMovies h query page) =
       (if \<forall>x \<in> set xs. present x then mapE (normalizeToDouban h) (filter kept xs)
        else Inl TypeError)
   \<and> (\<forall>rs. snd (searchMovies h query page) = Inr rs \<longrightarrow>
         map Inr rs = map (normalizeToDouban h) (filter kept xs))"
proof
  assume a: "field (received h (fst (searchMovies h query page))) ''results'' = Arr xs"
  then have "received h (fst (searchMovies h query page)) \<noteq> Undefined
     \<and> received h (fst (searchMovies h query page)) \<noteq> Null"
    by (auto simp: field_def)
  then have t: "truthy (received h (fst (searchMovies h query page)))"
    using a by (cases "received h (fst (searchMovies h query page))") (simp_all add: field_def)
  have e: "snd (searchMovies h query page) =
       (if \<forall>x \<in> set xs. present x then mapE (normalizeToDouban h) (filter kept xs)
        else Inl TypeError)"
    by (simp only: searchMovies_snd [of h query page] Let_def a t search_array) simp
  show "snd (searchMovies h query page) =
       (if \<forall>x \<in> set xs. present x then mapE (normalizeToDouban h) (filter kept xs)
        else Inl TypeError)
   \<and> (\<forall>rs. snd (searchMovies h query page) = Inr rs \<longrightarrow>
         map Inr rs = map (normalizeToDouban h) (filter kept xs))"
    using e by (auto simp: mapE_Inr_iff split: if_splits)
qed

text \<open>A response with a person, a series, a number and a movie: two records.\<close>

theorem searchMovies_keeps_movie_and_tv_witness:
  "field (received
      (answering (ok (Obj [(''results'',
         Arr [Obj [(''id'', Num (Finite 1)), (''media_type'', Str ''person'')],
              Obj [(''id'', Num (Finite 2)), (''media_type'', Str ''tv'')],
              Num (Finite 3),
              Obj [(''id'', Num (Finite 4)), (''media_type'', Str ''movie'')]])])))
      (fst (searchMovies
        (answering (ok (Obj [(''results'',
           Arr [Obj [(''id'', Num (Finite 1)), (''media_type'', Str ''person'')],
                Obj [(''id'', Num (Finite 2)), (''media_type'', Str ''tv'')],
                Num (Finite 3),
                Obj [(''id'', Num (Finite 4)), (''media_type'', Str ''movie'')]])])))
        ''dune'' None))) ''results''
     = Arr [Obj [(''id'', Num (Finite 1)), (''media_type'', Str ''person'')],
            Obj [(''id'', Num (Finite 2)), (''media_type'', Str ''tv'')],
            Num (Finite 3),
            Obj [(''id'', Num (Finite 4)), (''media_type'', Str ''movie'')]]
   \<and> map id' (projr (snd (searchMovies
        (answering (ok (Obj [(''results'',
           Arr [Obj [(''id'', Num (Finite 1)), (''media_type'', Str ''person'')],
                Obj [(''id'', Num (Finite 2)), (''media_type'', Str ''tv'')],
                Num (Finite 3),
                Obj [(''id'', Num (Finite 4)), (''media_type'', Str ''movie'')]])])))
        ''dune'' None))) = [''2'', ''4'']"
  using searchMovies_keeps_movie_and_tv
    [of "answering (ok (Obj [(''results'',
           Arr [Obj [(''id'', Num (Finite 1)), (''media_type'', Str ''person'')],
                Obj [(''id'', Num (Finite 2)), (''media_type'', Str ''tv'')],
                Num (Finite 3),
                Obj [(''id'', Num (Finite 4)), (''media_type'', Str ''movie'')]])]))"
        "''dune''" None
        "[Obj [(''id'', Num (Finite 1)), (''media_type'', Str ''person'')],
          Obj [(''id'', Num (Finite 2)), (''media_type'', Str ''tv'')],
          Num (Finite 3),
          Obj [(''id'', Num (Finite 4)), (''media_type'', Str ''movie'')]]"]
  by (simp add: run_simps prop_simps)

text \<open>
  C5, as stated, fails for a response object whose \<open>results\<close> is there but is not an
  array: the guard tests \<open>results\<close> for truthiness only, and the empty object is truthy.
\<close>

theorem results_not_an_array_rejects:
  "received (answering (ok (Obj [(''results'', Obj [])])))
     (fst (getMovieList (answering (ok (Obj [(''results'', Obj [])]))) ''movie'' None None None))
     = Obj [(''results'', Obj [])]
   \<and> \<not> isArray (field (Obj [(''results'', Obj [])]) ''results'')
   \<and> snd (getMovieList (answering (ok (Obj [(''results'', Obj [])]))) ''movie'' None None None)
     = Inl TypeError
   \<and> snd (searchMovies (answering (ok (Obj [(''results'', Obj [])]))) ''dune'' None)
     = Inl TypeError"
  by (simp add: run_simps prop_simps)

text \<open>
  C5, amended: when the fetcher returns \<open>null\<close> (or any falsy value), or a response
  whose \<open>results\<close> is missing or falsy, both operations resolve to the empty sequence.
  A truthy \<open>results\<close> that is not an array makes both reject with a TypeError.
\<close>

theorem falsy_response_gives_empty:
  "(received h (fst (getMovieList h ty tag page limit)) = Null
      \<or> \<not> truthy (received h (fst (getMovieList h ty tag page limit)))
      \<or> \<not> truthy (field (received h (fst (getMovieList h ty tag page limit))) ''results'')
    \<longrightarrow> snd (getMovieList h ty tag page limit) = Inr [])
   \<and> (received h (fst (searchMovies h query page')) = Null
      \<or> \<not> truthy (received h (fst (searchMovies h query page')))
      \<or> \<not> truthy (field (received h (fst (searchMovies h query page'))) ''results'')
    \<longrightarrow> snd (searchMovies h query page') = Inr [])
   \<and> (truthy (field (received h (fst (getMovieList h ty tag page limit))) ''results'')
      \<and> \<not> isArray (field (received h (fst (getMovieList h ty tag page limit))) ''results'')
    \<longrightarrow> snd (getMovieList h ty tag page limit) = Inl TypeError)
   \<and> (truthy (field (received h (fst (searchMovies h query page'))) ''results'')
      \<and> \<not> isArray (field (received h (fst (searchMovies h query page'))) ''results'')
    \<longrightarrow> snd (searchMovies h query page') = Inl TypeError)"
proof -
  have f: "\<And>d. truthy (field d ''results'') \<Longrightarrow> truthy d"
  proof -
    fix d
    assume "truthy (field d ''results'')"
    then show "truthy d" by (cases d) (simp_all add: field_def)
  qed
  show ?thesis
    unfolding getMovieList_snd [of h ty tag page limit] searchMovies_snd [of h query page'] Let_def
    using f by (auto simp: callMap_not_array callFilter_not_array andThen_def)
qed

text \<open>A network failure.\<close>

theorem falsy_response_gives_empty_witness:
  "received (answering NetworkError)
     (fst (getMovieList (answering NetworkError) ''tv'' (Some ''hot'') (Some (Finite 2)) None)) = Null
   \<and> snd (getMovieList (answering NetworkError) ''tv'' (Some ''hot'') (Some (Finite 2)) None) = Inr []
   \<and> snd (searchMovies (answering NetworkError) ''dune'' None) = Inr []"
  using falsy_response_gives_empty
    [of "answering NetworkError" "''tv''" "Some ''hot''" "Some (Finite 2)" None "''dune''" None]
  by (simp add: run_simps prop_simps)

subsection \<open>The endpoint of getMovieList\<close>

lemma getMovieList_url:
  "url (fst (getMovieList h ty tag page limit)) =
     TMDB_BASE_URL @ listEndpoint ty (case tag of None \<Rightarrow> ''hot'' | Some t \<Rightarrow> t)"
  by (simp add: getMovieList_def fetchTMDB_def Let_def)

text \<open>
  C2: the tag \<open>hot\<close> or its localized synonym selects the popular endpoint of the media
  type, \<open>latest\<close> or its localized synonym selects \<open>now_playing\<close> for movies and
  \<open>on_the_air\<close> for tv, \<open>top250\<close> or \<open>high_score\<close> selects \<open>top_rated\<close>, and every
  other tag selects the popular endpoint.
\<close>

theorem tag_selects_endpoint:
  "(tag = ''hot'' \<or> tag = hot_zh \<longrightarrow>
      url (fst (getMovieList h ty (Some tag) page limit)) =
        TMDB_BASE_URL @ ''/'' @ (if ty = ''tv'' then ''tv'' else ''movie'') @ ''/popular'')
   \<and> (tag = ''latest'' \<or> tag = latest_zh \<longrightarrow>
      url (fst (getMovieList h ty (Some tag) page limit)) =
        TMDB_BASE_URL @ (if ty = ''tv'' then ''/tv/on_the_air'' else ''/movie/now_playing''))
   \<and> (tag = ''top250'' \<or> tag = ''high_score'' \<longrightarrow>
      url (fst (getMovieList h ty (Some tag) page limit)) =
        TMDB_BASE_URL @ ''/'' @ (if ty = ''tv'' then ''tv'' else ''movie'') @ ''/top_rated'')
   \<and> (tag \<notin> {''hot'', hot_zh, ''latest'', latest_zh, ''top250'', ''high_score''} \<longrightarrow>
      url (fst (getMovieList h ty (Some tag) page limit)) =
        TMDB_BASE_URL @ ''/'' @ (if ty = ''tv'' then ''tv'' else ''movie'') @ ''/popular'')"
  by (simp add: getMovieList_url listEndpoint_def hot_zh_def latest_zh_def)

text \<open>One tag of each group, and the unrecognized tag \<open>comedy\<close>.\<close>

theorem tag_selects_endpoint_witness:
  "url (fst (getMovieList (answering NetworkError) ''tv'' (Some hot_zh) None None)) =
     ''https://api.themoviedb.org/3/tv/popular''
   \<and> url (fst (getMovieList (answering NetworkError) ''tv'' (Some latest_zh) None None)) =
     ''https://api.themoviedb.org/3/tv/on_the_air''
   \<and> url (fst (getMovieList (answering NetworkError) ''movie'' (Some ''latest'') None None)) =
     ''https://api.themoviedb.org/3/movie/now_playing''
   \<and> url (fst (getMovieList (answering NetworkError) ''movie'' (Some ''high_score'') None None)) =
     ''https://api.themoviedb.org/3/movie/top_rated''
   \<and> ''comedy'' \<notin> {''hot'', hot_zh, ''latest'', latest_zh, ''top250'', ''high_score''}
   \<and> url (fst (getMovieList (answering NetworkError) ''tv'' (Some ''comedy'') None None)) =
     ''https://api.themoviedb.org/3/tv/popular''"
  using tag_selects_endpoint [of hot_zh "answering NetworkError" "''tv''" None None]
    tag_selects_endpoint [of latest_zh "answering NetworkError" "''tv''" None None]
    tag_selects_endpoint [of "''latest''" "answering NetworkError" "''movie''" None None]
    tag_selects_endpoint [of "''high_score''" "answering NetworkError" "''movie''" None None]
    tag_selects_endpoint [of "''comedy''" "answering NetworkError" "''tv''" None None]
  by (simp add: TMDB_BASE_URL_def hot_zh_def latest_zh_def)

text \<open>
  C9: the limit is unused. For every type, tag and page and any two limits,
  \<open>getMovieList\<close> issues the same request and, on the same host, gives the same result.
\<close>

theorem limit_is_unused:
  "getMovieList h ty tag page limit = getMovieList h ty tag page limit'"
  by (simp add: getMovieList_def)

text \<open>The limit 1 and the omitted limit, on a response with one item.\<close>

theorem limit_is_unused_witness:
  "getMovieList (answering (ok (Obj [(''results'', Arr [Obj [(''id'', Num (Finite 9))]])])))
     ''movie'' (Some ''hot'') (Some (Finite 1)) (Some (Finite 1))
   = getMovieList (answering (ok (Obj [(''results'', Arr [Obj [(''id'', Num (Finite 9))]])])))
     ''movie'' (Some ''hot'') (Some (Finite 1)) None"
  using limit_is_unused
    [of "answering (ok (Obj [(''results'', Arr [Obj [(''id'', Num (Finite 9))]])]))"
        "''movie''" "Some ''hot''" "Some (Finite 1)" "Some (Finite 1)" None]
  by simp

text \<open>
  C10: every type other than exactly \<open>tv\<close> behaves as \<open>movie\<close> does and requests one of
  the three movie endpoints; the type \<open>tv\<close> requests one of the three tv endpoints.
\<close>

theorem only_tv_selects_series:
  "(ty \<noteq> ''tv'' \<longrightarrow>
      getMovieList h ty tag page limit = getMovieList h ''movie'' tag page limit
    \<and> url (fst (getMovieList h ty tag page limit)) \<in>
        {TMDB_BASE_URL @ ''/movie/popular'', TMDB_BASE_URL @ ''/movie/now_playing'',
         TMDB_BASE_URL @ ''/movie/top_rated''})
   \<and> (ty = ''tv'' \<longrightarrow>
      url (fst (getMovieList h ty tag page limit)) \<in>
        {TMDB_BASE_URL @ ''/tv/popular'', TMDB_BASE_URL @ ''/tv/on_the_air'',
         TMDB_BASE_URL @ ''/tv/top_rated''})"
  by (simp add: getMovieList_def fetchTMDB_def listEndpoint_def Let_def)

text \<open>The type \<open>series\<close> is not \<open>tv\<close>: it gets the movie endpoint.\<close>

theorem only_tv_selects_series_witness:
  "''series'' \<noteq> ''tv''
   \<and> url (fst (getMovieList (answering NetworkError) ''series'' (Some ''latest'') None None)) =
       ''https://api.themoviedb.org/3/movie/now_playing''
   \<and> url (fst (getMovieList (answering NetworkError) ''tv'' (Some ''latest'') None None)) =
       ''https://api.themoviedb.org/3/tv/on_the_air''"
  using only_tv_selects_series [of "''series''" "answering NetworkError" "Some ''latest''" None None]
    only_tv_selects_series [of "''tv''" "answering NetworkError" "Some ''latest''" None None]
  by (simp add: run_simps)

end
